theory Spec2Isabelle
  imports Main
begin

section \<open>Data of the disbursement facade (src/src/disbursements.ts)\<close>

text \<open>
  The enum \<open>PartyIdType\<close> is imported from \<open>./types\<close>; its members are the ones the
  doc comments of \<open>PayoutRequest\<close> name and the routes of \<open>tests/mock.ts\<close> accept.
\<close>

datatype PartyIdType = MSISDN | EMAIL | PARTY_CODE

fun PartyIdType_text :: "PartyIdType \<Rightarrow> string" where
  "PartyIdType_text MSISDN = ''MSISDN''"
| "PartyIdType_text EMAIL = ''EMAIL''"
| "PartyIdType_text PARTY_CODE = ''PARTY_CODE''"

record party =
  partyIdType :: PartyIdType
  partyId :: string

text \<open>
  \<open>PayoutRequest\<close> is the interface of the source; an optional field \<open>f?: string\<close> is a
  \<open>string option\<close>, \<open>None\<close> being the absent (undefined) field. \<open>PayoutBody\<close> is the type
  of the rest object \<open>payoutRequest\<close> that the parameter pattern
  \<open>{ callbackUrl, ...payoutRequest }\<close> of \<open>transfer\<close> binds: every field but
  \<open>callbackUrl\<close>.
\<close>

record PayoutBody =
  amount :: string
  currency :: string
  externalId :: "string option"
  payee :: party
  payerMessage :: "string option"
  payeeNote :: "string option"

record PayoutRequest = PayoutBody +
  callbackUrl :: "string option"

definition rest_payoutRequest :: "PayoutRequest \<Rightarrow> PayoutBody" where
  "rest_payoutRequest r =
     \<lparr>amount = amount r, currency = currency r, externalId = externalId r,
      payee = payee r, payerMessage = payerMessage r, payeeNote = payeeNote r\<rparr>"

text \<open>Decoded response bodies.\<close>

datatype json = JUndefined | JString string | JObject "(string \<times> json) list"

text \<open>The failures a promise can be rejected with (the taxonomy of the specification).\<close>

datatype error =
    ConfigurationError string
  | ValidationError string
  | AuthenticationFailure
  | RemoteError nat json
  | TransportError

datatype http_method = GET | POST

record request =
  meth :: http_method
  url :: string
  body :: "PayoutBody option"
  headers :: "(string \<times> string) list"

record response =
  status :: nat
  data :: json
  config :: request

text \<open>
  An \<open>AxiosInstance\<close>: a request is answered by a response (the promise resolves) or by
  an error (it rejects); the client may keep a state \<open>'s\<close> of its own between calls.
\<close>

type_synonym 's client = "request \<Rightarrow> 's \<Rightarrow> (error + response) \<times> 's"

text \<open>
  The effects of the facade, made explicit: how many identifiers \<open>uuid()\<close> has handed
  out, the payloads given to \<open>validateTransfer\<close>, the requests given to \<open>this.client\<close>,
  what \<open>console.log\<close> printed, and the state of the client.
\<close>

record 's world =
  drawn :: nat
  validated :: "PayoutBody list"
  calls :: "request list"
  console :: "request list"
  cstate :: 's

section \<open>The operations of class Disbursements\<close>

text \<open>JavaScript truthiness of a value of type \<open>string | undefined\<close>.\<close>

fun truthy :: "string option \<Rightarrow> bool" where
  "truthy None = False"
| "truthy (Some s) = (s \<noteq> [])"

text \<open>
  \<open>{ "X-Reference-Id": referenceId, ...(callbackUrl ? { "X-Callback-Url": callbackUrl } : {}) }\<close>
\<close>

definition transfer_headers :: "string \<Rightarrow> string option \<Rightarrow> (string \<times> string) list" where
  "transfer_headers referenceId cb =
     (''X-Reference-Id'', referenceId) #
     (case cb of
        None \<Rightarrow> []
      | Some u \<Rightarrow> if truthy (Some u) then [(''X-Callback-Url'', u)] else [])"

text \<open>\<open>this.client.post(url, data, { headers })\<close> and \<open>this.client.get(url)\<close>.\<close>

definition send :: "'s client \<Rightarrow> request \<Rightarrow> 's world \<Rightarrow> (error + response) \<times> 's world" where
  "send client rq w =
     (case client rq (cstate w) of
        (res, s') \<Rightarrow> (res, w\<lparr>calls := calls w @ [rq], cstate := s'\<rparr>))"

definition post :: "'s client \<Rightarrow> string \<Rightarrow> PayoutBody \<Rightarrow> (string \<times> string) list \<Rightarrow>
    's world \<Rightarrow> (error + response) \<times> 's world" where
  "post client u b hs = send client \<lparr>meth = POST, url = u, body = Some b, headers = hs\<rparr>"

definition get :: "'s client \<Rightarrow> string \<Rightarrow> 's world \<Rightarrow> (error + response) \<times> 's world" where
  "get client u = send client \<lparr>meth = GET, url = u, body = None, headers = []\<rparr>"

text \<open>
  \<open>transfer\<close>. The parameters \<open>validateTransfer\<close> (imported from \<open>./validate\<close>; \<open>Some e\<close>
  is the promise rejected with \<open>e\<close>) and \<open>uuid\<close> (the \<open>n\<close>-th identifier that \<open>uuid/v4\<close>
  hands out) are the collaborators of the method.
\<close>

definition transfer :: "(PayoutBody \<Rightarrow> error option) \<Rightarrow> (nat \<Rightarrow> string) \<Rightarrow> 's client \<Rightarrow>
    PayoutRequest \<Rightarrow> 's world \<Rightarrow> (error + string) \<times> 's world" where
  "transfer validateTransfer uuid client r w =
     (let payoutRequest = rest_payoutRequest r;
          w0 = w\<lparr>validated := validated w @ [payoutRequest]\<rparr>
      in case validateTransfer payoutRequest of
           Some e \<Rightarrow> (Inl e, w0)
         | None \<Rightarrow>
             (let referenceId = uuid (drawn w0);
                  w1 = w0\<lparr>drawn := Suc (drawn w0)\<rparr>
              in case post client ''/disbursement/v1_0/transfer'' payoutRequest
                        (transfer_headers referenceId (callbackUrl r)) w1 of
                   (Inl e, w2) \<Rightarrow> (Inl e, w2)
                 | (Inr resp, w2) \<Rightarrow>
                     (Inr referenceId, w2\<lparr>console := console w2 @ [config resp]\<rparr>)))"

definition getTransaction :: "'s client \<Rightarrow> string \<Rightarrow> 's world \<Rightarrow> (error + json) \<times> 's world" where
  "getTransaction client referenceId w =
     (case get client (''/disbursement/v1_0/transfer/'' @ referenceId) w of
        (Inl e, w') \<Rightarrow> (Inl e, w')
      | (Inr resp, w') \<Rightarrow> (Inr (data resp), w'))"

definition getBalance :: "'s client \<Rightarrow> 's world \<Rightarrow> (error + json) \<times> 's world" where
  "getBalance client w =
     (case get client ''/disbursement/v1_0/account/balance'' w of
        (Inl e, w') \<Rightarrow> (Inl e, w')
      | (Inr resp, w') \<Rightarrow> (Inr (data resp), w'))"

text \<open>The request that \<open>transfer\<close> hands to the client when it starts in \<open>w\<close>.\<close>

definition transfer_request :: "(nat \<Rightarrow> string) \<Rightarrow> PayoutRequest \<Rightarrow> 's world \<Rightarrow> request" where
  "transfer_request uuid r w =
     \<lparr>meth = POST, url = ''/disbursement/v1_0/transfer'',
      body = Some (rest_payoutRequest r),
      headers = transfer_headers (uuid (drawn w)) (callbackUrl r)\<rparr>"

text \<open>\<open>isPayerActive(id, type = PartyIdType.MSISDN)\<close>: \<open>None\<close> is the omitted argument.\<close>

definition isPayerActive :: "'s client \<Rightarrow> string \<Rightarrow> PartyIdType option \<Rightarrow> 's world \<Rightarrow>
    (error + json) \<times> 's world" where
  "isPayerActive client ident ty w =
     (let type = (case ty of None \<Rightarrow> MSISDN | Some t \<Rightarrow> t)
      in case get client (''/disbursement/v1_0/accountholder/'' @ PartyIdType_text type @ ''/''
                          @ ident @ ''/active'') w of
           (Inl e, w') \<Rightarrow> (Inl e, w')
         | (Inr resp, w') \<Rightarrow> (Inr (data resp), w'))"

text \<open>A test double: a client without state that answers every request alike.\<close>

definition replying :: "nat \<Rightarrow> json \<Rightarrow> unit client" where
  "replying st d rq s = (Inr \<lparr>status = st, data = d, config = rq\<rparr>, s)"

definition world0 :: "unit world" where
  "world0 = \<lparr>drawn = 0, validated = [], calls = [], console = [], cstate = ()\<rparr>"

text \<open>The payload of the scenario of the specification, with and without a callback URL.\<close>

definition payout0 :: "string option \<Rightarrow> PayoutRequest" where
  "payout0 cb =
     \<lparr>amount = ''2000'', currency = ''UGX'', externalId = None,
      payee = \<lparr>partyIdType = MSISDN, partyId = ''256772000000''\<rparr>,
      payerMessage = None, payeeNote = None, callbackUrl = cb\<rparr>"

definition uuid0 :: "nat \<Rightarrow> string" where
  "uuid0 n = (if n = 0 then ''6f1d9c52-3a0e-4f7b-9c1d-2b8e5a7f4c10''
              else ''0b9e3f64-71c2-4d58-a3e9-5c6d7e8f9a1b'')"

section \<open>The client factory (the module that exports the \<open>MomoClient\<close> creator)\<close>

text \<open>
  Configurations are objects: maps from property names to values. \<open>Environment\<close> is
  imported from \<open>./types\<close>; the source names its member \<open>SANDBOX\<close>, and any other
  member is an \<open>OtherEnvironment\<close>.
\<close>

datatype Environment = SANDBOX | OtherEnvironment string

datatype cvalue = Undefined | Str string | Env Environment

type_synonym config = "string \<rightharpoonup> cvalue"

definition defaultGlobalConfig :: config where
  "defaultGlobalConfig =
     [''baseUrl'' \<mapsto> Str ''https://ericssonbasicapi2.azure-api.net'',
      ''environment'' \<mapsto> Env SANDBOX]"

text \<open>
  What the factory builds, as terms: \<open>createClient\<close>, \<open>createAuthClient\<close> (from
  \<open>./client\<close>), \<open>createTokenRefresher\<close> and the two authorizers (from \<open>./auth\<close>) are
  imported by the module, so a call of one of them is recorded as such.
\<close>

datatype authorizer = authorizeCollections | authorizeDisbursements

datatype TokenRefresher = createTokenRefresher authorizer config

datatype AxiosInstance =
    createClient config
  | createAuthClient TokenRefresher AxiosInstance

datatype handle =
    new_Collections AxiosInstance
  | new_Disbursements AxiosInstance
  | new_Users AxiosInstance

text \<open>The object the creator returns: its three methods close over \<open>globalConfig\<close>.\<close>

datatype MomoClient = MomoClient config

text \<open>
  The validators are imported from \<open>./validate\<close> and are parameters here; \<open>Some e\<close> is
  the validator throwing \<open>e\<close>.
\<close>

definition momo :: "(config \<Rightarrow> error option) \<Rightarrow> config \<Rightarrow> error + MomoClient" where
  "momo validateGlobalConfig globalConfig =
     (case validateGlobalConfig globalConfig of
        Some e \<Rightarrow> Inl e
      | None \<Rightarrow> Inr (MomoClient globalConfig))"

text \<open>\<open>{ ...defaultGlobalConfig, ...globalConfig, ...overrides }\<close>\<close>

definition spread_config :: "config \<Rightarrow> config \<Rightarrow> config" where
  "spread_config globalConfig overrides = defaultGlobalConfig ++ globalConfig ++ overrides"

fun Collections :: "(config \<Rightarrow> error option) \<Rightarrow> MomoClient \<Rightarrow> config \<Rightarrow> error + handle" where
  "Collections validateProductConfig (MomoClient globalConfig) productConfig =
     (case validateProductConfig productConfig of
        Some e \<Rightarrow> Inl e
      | None \<Rightarrow>
          (let config = spread_config globalConfig productConfig;
               client = createAuthClient (createTokenRefresher authorizeCollections config)
                          (createClient config)
           in Inr (new_Collections client)))"

fun Disbursements :: "MomoClient \<Rightarrow> config \<Rightarrow> error + handle" where
  "Disbursements (MomoClient globalConfig) productConfig =
     (let config = spread_config globalConfig productConfig;
          client = createAuthClient (createTokenRefresher authorizeDisbursements config)
                     (createClient config)
      in Inr (new_Disbursements client))"

fun Users :: "(config \<Rightarrow> error option) \<Rightarrow> MomoClient \<Rightarrow> config \<Rightarrow> error + handle" where
  "Users validateSubscriptionConfig (MomoClient globalConfig) subscriptionConfig =
     (case validateSubscriptionConfig subscriptionConfig of
        Some e \<Rightarrow> Inl e
      | None \<Rightarrow>
          (let config = spread_config globalConfig subscriptionConfig;
               client = createClient config
           in Inr (new_Users client)))"

fun client_of :: "handle \<Rightarrow> AxiosInstance" where
  "client_of (new_Collections c) = c"
| "client_of (new_Disbursements c) = c"
| "client_of (new_Users c) = c"

text \<open>The token refreshers inside a client.\<close>

fun refreshers :: "AxiosInstance \<Rightarrow> TokenRefresher list" where
  "refreshers (createClient c) = []"
| "refreshers (createAuthClient t a) = t # refreshers a"

section \<open>The transports behind a handle\<close>

text \<open>
  The state behind a client: the state \<open>'r\<close> of its token refresher and the requests
  that reached the underlying HTTP transport, in order.
\<close>

record 'r net =
  tokens :: 'r
  wire :: "request list"

text \<open>
  The collaborators of the transports: the remote end a configuration points to, the
  two operations of the token refresher a \<open>createTokenRefresher\<close> call returns
  (\<open>getToken\<close>, which yields the bearer string or fails, and \<open>invalidate\<close>), and the
  predicate that tells an authentication rejection from any other answer.
\<close>

record 'r env =
  server :: "config \<Rightarrow> request \<Rightarrow> error + response"
  getToken :: "TokenRefresher \<Rightarrow> 'r \<Rightarrow> (error + string) \<times> 'r"
  invalidate :: "TokenRefresher \<Rightarrow> 'r \<Rightarrow> 'r"
  rejection :: "error + response \<Rightarrow> bool"

text \<open>
  Modelled from the spec: \<open>createClient\<close> of \<open>./client\<close> is not among the sources. The
  plain transport hands the request to the underlying HTTP transport and returns its
  answer; it obtains and attaches no bearer token.
\<close>

definition plain_request :: "(request \<Rightarrow> error + response) \<Rightarrow> 'r net client" where
  "plain_request srv rq n = (srv rq, n\<lparr>wire := wire n @ [rq]\<rparr>)"

text \<open>
  Modelled from the spec: the bearer credential that the authenticating transport of
  \<open>./client\<close> attaches (section 4.3) is an \<open>Authorization\<close> header holding \<open>Bearer\<close> and
  the token; it replaces any header of the same name.
\<close>

definition with_bearer :: "string \<Rightarrow> request \<Rightarrow> request" where
  "with_bearer tok rq =
     rq\<lparr>headers := (''Authorization'', ''Bearer '' @ tok) #
                     filter (\<lambda>h. fst h \<noteq> ''Authorization'') (headers rq)\<rparr>"

text \<open>
  Modelled from the spec: \<open>createAuthClient\<close> of \<open>./client\<close> is not among the sources.
  Section 4.3: the authenticating transport calls \<open>getToken\<close>, attaches the result as a
  bearer credential header next to the caller's headers and issues the underlying call;
  on an authentication rejection it invalidates the cached token, obtains a new one and
  retries exactly once with the same method, path and body; a second rejection is a
  terminal \<open>AuthenticationFailure\<close>; every other answer is returned as it is.
\<close>

definition auth_request :: "('r \<Rightarrow> (error + string) \<times> 'r) \<Rightarrow> ('r \<Rightarrow> 'r) \<Rightarrow>
    (error + response \<Rightarrow> bool) \<Rightarrow> 'r net client \<Rightarrow> 'r net client" where
  "auth_request getTok inval rejected inner rq n =
     (case getTok (tokens n) of
        (Inl e, ts) \<Rightarrow> (Inl e, n\<lparr>tokens := ts\<rparr>)
      | (Inr tok, ts) \<Rightarrow>
          (case inner (with_bearer tok rq) (n\<lparr>tokens := ts\<rparr>) of
             (res, n1) \<Rightarrow>
               if rejected res then
                 (case getTok (inval (tokens n1)) of
                    (Inl e, ts2) \<Rightarrow> (Inl e, n1\<lparr>tokens := ts2\<rparr>)
                  | (Inr tok2, ts2) \<Rightarrow>
                      (case inner (with_bearer tok2 rq) (n1\<lparr>tokens := ts2\<rparr>) of
                         (res2, n2) \<Rightarrow>
                           if rejected res2 then (Inl AuthenticationFailure, n2)
                           else (res2, n2)))
               else (res, n1)))"

text \<open>
  Modelled from the spec: the client that a term of the factory denotes, the plain
  transport for \<open>createClient\<close> and the authenticating transport around the inner client
  for \<open>createAuthClient\<close>.
\<close>

fun run :: "'r env \<Rightarrow> AxiosInstance \<Rightarrow> 'r net client" where
  "run E (createClient c) = plain_request (server E c)"
| "run E (createAuthClient t a) =
     auth_request (getToken E t) (invalidate E t) (rejection E) (run E a)"

text \<open>
  A test environment: \<open>getToken\<close> yields the access token \<open>token\<close> (the one the token
  routes of \<open>tests/mock.ts\<close> answer with) and counts its calls in the refresher state,
  the remote end answers every request with 200 and the mocked balance, and a 401 is an
  authentication rejection.
\<close>

definition balance0 :: json where
  "balance0 = JObject [(''availableBalance'', JString ''2000''), (''currency'', JString ''UGX'')]"

definition env0 :: "nat env" where
  "env0 =
     \<lparr>server = (\<lambda>c rq. Inr \<lparr>status = 200, data = balance0, config = rq\<rparr>),
      getToken = (\<lambda>t k. (Inr ''token'', Suc k)),
      invalidate = (\<lambda>t k. k),
      rejection = (\<lambda>res. case res of Inl e \<Rightarrow> False | Inr resp \<Rightarrow> status resp = 401)\<rparr>"

section \<open>The token refresher of the specification\<close>

text \<open>
  Modelled from the spec: the token of section 3, an opaque bearer string and the
  instant at which it expires (\<open>./auth\<close> and \<open>./types\<close> are not among the sources).
\<close>

record Token =
  tvalue :: string
  expiresAt :: nat

text \<open>
  Modelled from the spec: \<open>createTokenRefresher\<close> of \<open>./auth\<close> is not among the sources.
  Section 3: the state is one of \<open>Empty\<close>, \<open>Cached(Token)\<close> and
  \<open>Refreshing(pending-completion-handle)\<close>; the handle is the list of the callers that
  wait for the authorization in flight. The record counts the calls of the Authorizer
  and lists the completions delivered to callers.
\<close>

datatype refresher_state = Empty | Cached Token | Refreshing "nat list"

record refresher =
  rstate :: refresher_state
  authorize_calls :: nat
  resolved :: "(nat \<times> (error + Token)) list"

text \<open>
  Modelled from the spec: the scheduling is single-threaded and cooperative (section 5),
  with state transitions atomic between suspension points, so a run is a
  sequence of events: caller \<open>c\<close> calls \<open>getToken\<close> at instant \<open>now\<close>, the authorization
  in flight completes with a token or a failure, or \<open>invalidate\<close> is called.
\<close>

datatype event = GetToken nat nat | Completed "error + Token" | Invalidate

text \<open>
  Modelled from the spec: a cached token is usable while its expiry is later than now
  plus the safety margin (section 4.2); the cache is stale when it is empty or holds a
  token that is not usable.
\<close>

definition usable :: "nat \<Rightarrow> nat \<Rightarrow> Token \<Rightarrow> bool" where
  "usable margin now t = (now + margin < expiresAt t)"

definition stale :: "nat \<Rightarrow> nat \<Rightarrow> refresher \<Rightarrow> bool" where
  "stale margin now r =
     (case rstate r of
        Empty \<Rightarrow> True
      | Cached t \<Rightarrow> \<not> usable margin now t
      | Refreshing ws \<Rightarrow> False)"

definition start_refresh :: "nat \<Rightarrow> refresher \<Rightarrow> refresher" where
  "start_refresh c r = r\<lparr>rstate := Refreshing [c], authorize_calls := Suc (authorize_calls r)\<rparr>"

text \<open>
  Modelled from the spec: section 4.2. \<open>getToken\<close> returns a usable cached token at once;
  from \<open>Empty\<close> or an expired token it moves to \<open>Refreshing\<close> and invokes the Authorizer;
  in \<open>Refreshing\<close> the caller attaches to the operation in flight. A completion resolves
  every waiting caller with the same result and leaves \<open>Cached\<close> on success, \<open>Empty\<close> on
  failure. \<open>invalidate\<close> drops a cached token and does not cancel a refresh in flight.
\<close>

fun step :: "nat \<Rightarrow> refresher \<Rightarrow> event \<Rightarrow> refresher" where
  "step margin r (GetToken c now) =
     (case rstate r of
        Empty \<Rightarrow> start_refresh c r
      | Cached t \<Rightarrow>
          if usable margin now t then r\<lparr>resolved := resolved r @ [(c, Inr t)]\<rparr>
          else start_refresh c r
      | Refreshing ws \<Rightarrow> r\<lparr>rstate := Refreshing (ws @ [c])\<rparr>)"
| "step margin r (Completed res) =
     (case rstate r of
        Refreshing ws \<Rightarrow>
          r\<lparr>rstate := (case res of Inl e \<Rightarrow> Empty | Inr t \<Rightarrow> Cached t),
            resolved := resolved r @ map (\<lambda>c. (c, res)) ws\<rparr>
      | _ \<Rightarrow> r)"
| "step margin r Invalidate =
     (case rstate r of
        Cached t \<Rightarrow> r\<lparr>rstate := Empty\<rparr>
      | _ \<Rightarrow> r)"

definition run_events :: "nat \<Rightarrow> refresher \<Rightarrow> event list \<Rightarrow> refresher" where
  "run_events margin r es = foldl (step margin) r es"

text \<open>The \<open>getToken\<close> calls of a list of (caller, instant) pairs.\<close>

definition getToken_calls :: "(nat \<times> nat) list \<Rightarrow> event list" where
  "getToken_calls cs = map (\<lambda>(c, now). GetToken c now) cs"

definition refresher0 :: refresher where
  "refresher0 = \<lparr>rstate = Empty, authorize_calls = 0, resolved = []\<rparr>"

section \<open>Test data\<close>

text \<open>The transaction and the configurations used in the examples below.\<close>

definition transfer0 :: json where
  "transfer0 = JObject [(''financialTransactionId'', JString ''tx id''),
     (''externalId'', JString ''string''), (''amount'', JString ''2000''),
     (''currency'', JString ''UGX''),
     (''payee'', JObject [(''partyIdType'', JString ''MSISDN''),
                          (''partyId'', JString ''256772000000'')]),
     (''status'', JString ''SUCCESSFUL'')]"

definition global0 :: config where
  "global0 = [''environment'' \<mapsto> Env (OtherEnvironment ''production''),
              ''callbackHost'' \<mapsto> Str ''example.org'']"

definition product0 :: config where
  "product0 = [''callbackHost'' \<mapsto> Str ''pay.example.org'', ''userId'' \<mapsto> Str ''u'']"

text \<open>A validator that rejects a configuration without a \<open>userId\<close>.\<close>

definition requires_userId :: "config \<Rightarrow> error option" where
  "requires_userId c =
     (if c ''userId'' = None then Some (ConfigurationError ''userId is required'') else None)"

text \<open>The client of the handle that \<open>Disbursements\<close> builds from empty configurations.\<close>

definition client0 :: AxiosInstance where
  "client0 = createAuthClient
     (createTokenRefresher authorizeDisbursements (spread_config Map.empty Map.empty))
     (createClient (spread_config Map.empty Map.empty))"

definition token0 :: Token where
  "token0 = \<lparr>tvalue = ''token'', expiresAt = 3600\<rparr>"

section \<open>Shared facts about transfer\<close>

lemma transfer_invalid:
  assumes "validateTransfer (rest_payoutRequest r) = Some e"
  shows "transfer validateTransfer uuid client r w =
           (Inl e, w\<lparr>validated := validated w @ [rest_payoutRequest r]\<rparr>)"
  using assms by (simp add: transfer_def)

lemma transfer_valid:
  assumes "validateTransfer (rest_payoutRequest r) = None"
  shows "transfer validateTransfer uuid client r w =
     (let rq = transfer_request uuid r w;
          w2 = w\<lparr>drawn := Suc (drawn w), validated := validated w @ [rest_payoutRequest r],
                 calls := calls w @ [rq], cstate := snd (client rq (cstate w))\<rparr>
      in case fst (client rq (cstate w)) of
           Inl e \<Rightarrow> (Inl e, w2)
         | Inr resp \<Rightarrow> (Inr (uuid (drawn w)), w2\<lparr>console := console w @ [config resp]\<rparr>))"
  using assms
  by (simp add: transfer_def transfer_request_def post_def send_def Let_def split: prod.splits sum.splits)

lemma transfer_valid_calls:
  assumes "validateTransfer (rest_payoutRequest r) = None"
  shows "calls (snd (transfer validateTransfer uuid client r w)) =
           calls w @ [transfer_request uuid r w]"
  using assms by (simp add: transfer_valid Let_def split: sum.splits)

lemma transfer_validated:
  "validated (snd (transfer validateTransfer uuid client r w)) =
     validated w @ [rest_payoutRequest r]"
proof (cases "validateTransfer (rest_payoutRequest r)")
  case None
  then show ?thesis by (simp add: transfer_valid Let_def split: sum.splits)
next
  case (Some e)
  then show ?thesis by (simp add: transfer_invalid)
qed

section \<open>Validation comes before the request\<close>

text \<open>
  C5. When the external validation rejects the payload, \<open>transfer\<close> fails with that
  very error, hands no request to the client, draws no reference identifier, and
  leaves the client and the console untouched.
\<close>

theorem transfer_validation_failure:
  assumes "validateTransfer (rest_payoutRequest r) = Some e"
  shows "fst (transfer validateTransfer uuid client r w) = Inl e
       \<and> calls (snd (transfer validateTransfer uuid client r w)) = calls w
       \<and> drawn (snd (transfer validateTransfer uuid client r w)) = drawn w
       \<and> cstate (snd (transfer validateTransfer uuid client r w)) = cstate w
       \<and> console (snd (transfer validateTransfer uuid client r w)) = console w"
proof -
  have "transfer validateTransfer uuid client r w =
          (Inl e, w\<lparr>validated := validated w @ [rest_payoutRequest r]\<rparr>)"
    using assms by (rule transfer_invalid)
  then show ?thesis by simp
qed

theorem transfer_validation_failure_witness:
  "fst (transfer (\<lambda>b. Some (ValidationError ''amount'')) uuid0 (replying 201 JUndefined)
         (payout0 None) world0) = Inl (ValidationError ''amount'')
   \<and> calls (snd (transfer (\<lambda>b. Some (ValidationError ''amount'')) uuid0 (replying 201 JUndefined)
         (payout0 None) world0)) = []
   \<and> drawn (snd (transfer (\<lambda>b. Some (ValidationError ''amount'')) uuid0 (replying 201 JUndefined)
         (payout0 None) world0)) = 0"
  using transfer_validation_failure
    [of "\<lambda>b. Some (ValidationError ''amount'')" "payout0 None" "ValidationError ''amount''"
        uuid0 "replying 201 JUndefined" world0]
  by (simp add: world0_def)

section \<open>The reference identifier of a transfer\<close>

text \<open>
  C2. For a payload that passes validation, \<open>transfer\<close> draws the next identifier of
  the generator (the generator advances by one, so the following call draws another
  one) and, whatever response the client resolves with, returns exactly that
  identifier: the response never enters the result.
\<close>

theorem transfer_returns_generated_id:
  assumes "validateTransfer (rest_payoutRequest r) = None"
    and "fst (client (transfer_request uuid r w) (cstate w)) = Inr resp"
  shows "fst (transfer validateTransfer uuid client r w) = Inr (uuid (drawn w))
       \<and> drawn (snd (transfer validateTransfer uuid client r w)) = Suc (drawn w)"
  using assms by (simp add: transfer_valid Let_def)

theorem transfer_returns_generated_id_witness:
  "fst (transfer (\<lambda>b. None) uuid0 (replying 201 JUndefined) (payout0 None) world0)
     = Inr ''6f1d9c52-3a0e-4f7b-9c1d-2b8e5a7f4c10''
   \<and> drawn (snd (transfer (\<lambda>b. None) uuid0 (replying 201 JUndefined) (payout0 None) world0)) = 1"
  using transfer_returns_generated_id
    [of "\<lambda>b. None" "payout0 None" "replying 201 JUndefined" uuid0 world0
        "\<lparr>status = 201, data = JUndefined, config = transfer_request uuid0 (payout0 None) world0\<rparr>"]
  by (simp add: replying_def world0_def uuid0_def)

section \<open>The request of a transfer\<close>

lemma transfer_headers_reference:
  "map_of (transfer_headers i cb) ''X-Reference-Id'' = Some i"
  by (simp add: transfer_headers_def)

lemma transfer_headers_callback:
  "map_of (transfer_headers i cb) ''X-Callback-Url'' = (if truthy cb then cb else None)"
  by (cases cb) (simp_all add: transfer_headers_def)

text \<open>
  C6, as amended. For a payload that passes validation, \<open>transfer\<close> hands exactly one
  request to the client: a POST to \<open>/disbursement/v1_0/transfer\<close> whose
  \<open>X-Reference-Id\<close> header is the generated identifier, and which carries an
  \<open>X-Callback-Url\<close> header, holding the caller's URL, exactly when the caller supplied
  a non-empty \<open>callbackUrl\<close>.
\<close>

theorem transfer_issues_one_post:
  assumes "validateTransfer (rest_payoutRequest r) = None"
  shows "calls (snd (transfer validateTransfer uuid client r w)) =
           calls w @ [transfer_request uuid r w]
       \<and> meth (transfer_request uuid r w) = POST
       \<and> url (transfer_request uuid r w) = ''/disbursement/v1_0/transfer''
       \<and> map_of (headers (transfer_request uuid r w)) ''X-Reference-Id'' = Some (uuid (drawn w))
       \<and> map_of (headers (transfer_request uuid r w)) ''X-Callback-Url'' =
           (if truthy (callbackUrl r) then callbackUrl r else None)"
  using assms
  by (simp add: transfer_valid_calls transfer_headers_reference transfer_headers_callback
        transfer_request_def)

theorem transfer_issues_one_post_witness:
  "calls (snd (transfer (\<lambda>b. None) uuid0 (replying 201 JUndefined)
                (payout0 (Some ''https://example.org/cb'')) world0)) =
     [\<lparr>meth = POST, url = ''/disbursement/v1_0/transfer'',
       body = Some (rest_payoutRequest (payout0 (Some ''https://example.org/cb''))),
       headers = [(''X-Reference-Id'', ''6f1d9c52-3a0e-4f7b-9c1d-2b8e5a7f4c10''),
                  (''X-Callback-Url'', ''https://example.org/cb'')]\<rparr>]"
  using transfer_issues_one_post
    [of "\<lambda>b. None" "payout0 (Some ''https://example.org/cb'')" uuid0 "replying 201 JUndefined" world0]
  by (simp add: transfer_request_def transfer_headers_def world0_def uuid0_def payout0_def)

text \<open>
  C6 as stated fails for the empty string: the caller supplies \<open>callbackUrl\<close>, and the
  only header of the request is \<open>X-Reference-Id\<close>, since the empty string is falsy.
\<close>

theorem transfer_empty_callbackUrl_counterexample:
  "callbackUrl (payout0 (Some '''')) = Some ''''
   \<and> map headers (calls (snd (transfer (\<lambda>b. None) uuid0 (replying 201 JUndefined)
                            (payout0 (Some '''')) world0))) =
       [[(''X-Reference-Id'', ''6f1d9c52-3a0e-4f7b-9c1d-2b8e5a7f4c10'')]]"
  by (simp add: transfer_valid_calls transfer_request_def transfer_headers_def world0_def
        uuid0_def payout0_def)


section \<open>The lookups\<close>

lemma get_result:
  "get client u w =
     (fst (client \<lparr>meth = GET, url = u, body = None, headers = []\<rparr> (cstate w)),
      w\<lparr>calls := calls w @ [\<lparr>meth = GET, url = u, body = None, headers = []\<rparr>],
        cstate := snd (client \<lparr>meth = GET, url = u, body = None, headers = []\<rparr> (cstate w))\<rparr>)"
  by (simp add: get_def send_def split: prod.splits)

text \<open>
  C7. For every \<open>referenceId\<close>, \<open>getTransaction\<close> hands the client exactly one request,
  a GET of \<open>/disbursement/v1_0/transfer/{referenceId}\<close>, and resolves with the \<open>data\<close> of
  the response as it is (or rejects with the client's error); \<open>getBalance\<close> does the
  same with a GET of \<open>/disbursement/v1_0/account/balance\<close>.
\<close>

theorem lookups_return_response_data:
  "calls (snd (getTransaction client referenceId w)) =
     calls w @ [\<lparr>meth = GET, url = ''/disbursement/v1_0/transfer/'' @ referenceId,
                 body = None, headers = []\<rparr>]
   \<and> fst (getTransaction client referenceId w) =
       (case fst (client \<lparr>meth = GET, url = ''/disbursement/v1_0/transfer/'' @ referenceId,
                          body = None, headers = []\<rparr> (cstate w)) of
          Inl e \<Rightarrow> Inl e
        | Inr resp \<Rightarrow> Inr (data resp))
   \<and> calls (snd (getBalance client w)) =
       calls w @ [\<lparr>meth = GET, url = ''/disbursement/v1_0/account/balance'',
                   body = None, headers = []\<rparr>]
   \<and> fst (getBalance client w) =
       (case fst (client \<lparr>meth = GET, url = ''/disbursement/v1_0/account/balance'',
                          body = None, headers = []\<rparr> (cstate w)) of
          Inl e \<Rightarrow> Inl e
        | Inr resp \<Rightarrow> Inr (data resp))"
proof -
  have t: "getTransaction client referenceId w =
      (case get client (''/disbursement/v1_0/transfer/'' @ referenceId) w of
         (Inl e, w') \<Rightarrow> (Inl e, w') | (Inr resp, w') \<Rightarrow> (Inr (data resp), w'))"
    by (simp add: getTransaction_def)
  have b: "getBalance client w =
      (case get client ''/disbursement/v1_0/account/balance'' w of
         (Inl e, w') \<Rightarrow> (Inl e, w') | (Inr resp, w') \<Rightarrow> (Inr (data resp), w'))"
    by (simp add: getBalance_def)
  show ?thesis
    unfolding t b get_result by (simp split: sum.splits)
qed

text \<open>The two scenarios of the specification, with the mocked bodies.\<close>

theorem lookups_return_response_data_witness:
  "fst (getTransaction (replying 200 transfer0) ''6f1d9c52-3a0e-4f7b-9c1d-2b8e5a7f4c10'' world0)
     = Inr transfer0
   \<and> calls (snd (getTransaction (replying 200 transfer0)
                   ''6f1d9c52-3a0e-4f7b-9c1d-2b8e5a7f4c10'' world0)) =
       [\<lparr>meth = GET, url = ''/disbursement/v1_0/transfer/6f1d9c52-3a0e-4f7b-9c1d-2b8e5a7f4c10'',
         body = None, headers = []\<rparr>]
   \<and> fst (getBalance (replying 200 balance0) world0) = Inr balance0
   \<and> calls (snd (getBalance (replying 200 balance0) world0)) =
       [\<lparr>meth = GET, url = ''/disbursement/v1_0/account/balance'', body = None, headers = []\<rparr>]"
  using lookups_return_response_data
      [of "replying 200 transfer0" "''6f1d9c52-3a0e-4f7b-9c1d-2b8e5a7f4c10''" world0]
    lookups_return_response_data [of "replying 200 balance0" "[]" world0]
  by (simp add: replying_def world0_def)

section \<open>The body of a transfer\<close>

lemma rest_payoutRequest_truncate: "rest_payoutRequest r = PayoutBody.truncate r"
  by (simp add: rest_payoutRequest_def PayoutBody.truncate_def)

text \<open>
  C10. The payload given to the validation and, when the validation passes, the body of
  the one request given to the client are both the request object without its
  \<open>callbackUrl\<close> field (the record truncated to the fields of \<open>PayoutBody\<close>); neither
  depends on the value of \<open>callbackUrl\<close>, which travels in the headers only.
\<close>

theorem transfer_body_omits_callbackUrl:
  "validated (snd (transfer validateTransfer uuid client r w)) =
     validated w @ [PayoutBody.truncate r]
   \<and> (case validateTransfer (PayoutBody.truncate r) of
        Some e \<Rightarrow> calls (snd (transfer validateTransfer uuid client r w)) = calls w
      | None \<Rightarrow>
          map body (calls (snd (transfer validateTransfer uuid client r w))) =
            map body (calls w) @ [Some (PayoutBody.truncate r)])
   \<and> rest_payoutRequest (r\<lparr>callbackUrl := cb\<rparr>) = rest_payoutRequest r"
proof (intro conjI)
  show "validated (snd (transfer validateTransfer uuid client r w)) =
          validated w @ [PayoutBody.truncate r]"
    by (simp add: transfer_validated rest_payoutRequest_truncate)
next
  show "case validateTransfer (PayoutBody.truncate r) of
          Some e \<Rightarrow> calls (snd (transfer validateTransfer uuid client r w)) = calls w
        | None \<Rightarrow>
            map body (calls (snd (transfer validateTransfer uuid client r w))) =
              map body (calls w) @ [Some (PayoutBody.truncate r)]"
  proof (cases "validateTransfer (rest_payoutRequest r)")
    case None
    then show ?thesis
      by (simp add: transfer_valid_calls transfer_request_def rest_payoutRequest_truncate [symmetric])
  next
    case (Some e)
    then show ?thesis
      by (simp add: transfer_invalid rest_payoutRequest_truncate [symmetric])
  qed
next
  show "rest_payoutRequest (r\<lparr>callbackUrl := cb\<rparr>) = rest_payoutRequest r"
    by (simp add: rest_payoutRequest_def)
qed

theorem transfer_body_omits_callbackUrl_witness:
  "validated (snd (transfer (\<lambda>b. None) uuid0 (replying 201 JUndefined)
                    (payout0 (Some ''https://example.org/cb'')) world0)) =
     [\<lparr>amount = ''2000'', currency = ''UGX'', externalId = None,
       payee = \<lparr>partyIdType = MSISDN, partyId = ''256772000000''\<rparr>,
       payerMessage = None, payeeNote = None\<rparr>]
   \<and> map body (calls (snd (transfer (\<lambda>b. None) uuid0 (replying 201 JUndefined)
                    (payout0 (Some ''https://example.org/cb'')) world0))) =
     [Some \<lparr>amount = ''2000'', currency = ''UGX'', externalId = None,
            payee = \<lparr>partyIdType = MSISDN, partyId = ''256772000000''\<rparr>,
            payerMessage = None, payeeNote = None\<rparr>]"
  using transfer_body_omits_callbackUrl
    [of "\<lambda>b. None" uuid0 "replying 201 JUndefined" "payout0 (Some ''https://example.org/cb'')"
        world0]
  by (simp add: payout0_def world0_def PayoutBody.truncate_def)

section \<open>The configuration of a product handle\<close>

lemma spread_config_lookup:
  "spread_config g p k =
     (case p k of
        Some v \<Rightarrow> Some v
      | None \<Rightarrow> (case g k of Some v \<Rightarrow> Some v | None \<Rightarrow> defaultGlobalConfig k))"
  by (simp add: spread_config_def map_add_def split: option.splits)

text \<open>
  C8. When the product configuration is accepted, \<open>Collections\<close> and \<open>Disbursements\<close>
  each build a handle whose token refresher and plain client both receive the merge of
  the three layers, and at every key of that merge the product-level value wins, then
  the caller's global value, then the built-in default.
\<close>

theorem config_precedence:
  assumes "validateProductConfig p = None"
  shows "Collections validateProductConfig (MomoClient g) p =
           Inr (new_Collections (createAuthClient
                  (createTokenRefresher authorizeCollections (spread_config g p))
                  (createClient (spread_config g p))))
       \<and> Disbursements (MomoClient g) p =
           Inr (new_Disbursements (createAuthClient
                  (createTokenRefresher authorizeDisbursements (spread_config g p))
                  (createClient (spread_config g p))))
       \<and> spread_config g p k =
           (case p k of
              Some v \<Rightarrow> Some v
            | None \<Rightarrow> (case g k of Some v \<Rightarrow> Some v | None \<Rightarrow> defaultGlobalConfig k))"
proof (intro conjI)
  show "Collections validateProductConfig (MomoClient g) p =
           Inr (new_Collections (createAuthClient
                  (createTokenRefresher authorizeCollections (spread_config g p))
                  (createClient (spread_config g p))))"
    using assms by (simp add: Let_def)
next
  show "Disbursements (MomoClient g) p =
           Inr (new_Disbursements (createAuthClient
                  (createTokenRefresher authorizeDisbursements (spread_config g p))
                  (createClient (spread_config g p))))"
    by (simp add: Let_def)
next
  show "spread_config g p k =
           (case p k of
              Some v \<Rightarrow> Some v
            | None \<Rightarrow> (case g k of Some v \<Rightarrow> Some v | None \<Rightarrow> defaultGlobalConfig k))"
    by (rule spread_config_lookup)
qed

theorem config_precedence_witness:
  "Collections requires_userId (MomoClient global0) product0 =
     Inr (new_Collections (createAuthClient
            (createTokenRefresher authorizeCollections (spread_config global0 product0))
            (createClient (spread_config global0 product0))))
   \<and> Disbursements (MomoClient global0) product0 =
     Inr (new_Disbursements (createAuthClient
            (createTokenRefresher authorizeDisbursements (spread_config global0 product0))
            (createClient (spread_config global0 product0))))
   \<and> spread_config global0 product0 ''callbackHost'' = Some (Str ''pay.example.org'')
   \<and> spread_config global0 product0 ''userId'' = Some (Str ''u'')
   \<and> spread_config global0 product0 ''environment'' = Some (Env (OtherEnvironment ''production''))
   \<and> spread_config global0 product0 ''baseUrl'' = Some (Str ''https://ericssonbasicapi2.azure-api.net'')"
proof -
  have v: "requires_userId product0 = None"
    by (simp add: requires_userId_def product0_def)
  have p: "Collections requires_userId (MomoClient global0) product0 =
           Inr (new_Collections (createAuthClient
                  (createTokenRefresher authorizeCollections (spread_config global0 product0))
                  (createClient (spread_config global0 product0))))
       \<and> Disbursements (MomoClient global0) product0 =
           Inr (new_Disbursements (createAuthClient
                  (createTokenRefresher authorizeDisbursements (spread_config global0 product0))
                  (createClient (spread_config global0 product0))))
       \<and> spread_config global0 product0 k =
           (case product0 k of
              Some v \<Rightarrow> Some v
            | None \<Rightarrow> (case global0 k of Some v \<Rightarrow> Some v | None \<Rightarrow> defaultGlobalConfig k))"
    for k
    using v by (rule config_precedence [where validateProductConfig = requires_userId
          and p = product0 and g = global0 and k = k])
  have c: "Collections requires_userId (MomoClient global0) product0 =
     Inr (new_Collections (createAuthClient
            (createTokenRefresher authorizeCollections (spread_config global0 product0))
            (createClient (spread_config global0 product0))))"
    using p [of "[]"] by (rule conjunct1)
  have d: "Disbursements (MomoClient global0) product0 =
     Inr (new_Disbursements (createAuthClient
            (createTokenRefresher authorizeDisbursements (spread_config global0 product0))
            (createClient (spread_config global0 product0))))"
    using p [of "[]"] by (rule conjunct1 [OF conjunct2])
  have k1: "spread_config global0 product0 ''callbackHost'' = Some (Str ''pay.example.org'')"
    using p [of "''callbackHost''"] by (simp add: global0_def product0_def)
  have k2: "spread_config global0 product0 ''userId'' = Some (Str ''u'')"
    using p [of "''userId''"] by (simp add: global0_def product0_def)
  have k3: "spread_config global0 product0 ''environment''
      = Some (Env (OtherEnvironment ''production''))"
    using p [of "''environment''"] by (simp add: global0_def product0_def)
  have k4: "spread_config global0 product0 ''baseUrl''
      = Some (Str ''https://ericssonbasicapi2.azure-api.net'')"
    using p [of "''baseUrl''"] by (simp add: global0_def product0_def defaultGlobalConfig_def)
  from c d k1 k2 k3 k4 show ?thesis by (intro conjI)
qed

section \<open>Validation of the product configuration\<close>

lemma momo_invalid:
  assumes "validateGlobalConfig g = Some e"
  shows "momo validateGlobalConfig g = Inl e"
  using assms by (simp add: momo_def)

text \<open>
  C4 fails on the code for \<open>Disbursements\<close>: a product configuration that
  \<open>validateProductConfig\<close> rejects makes \<open>Collections\<close> raise the error, while
  \<open>Disbursements\<close>, which never calls the validator, returns a handle.
\<close>

theorem Disbursements_skips_validateProductConfig:
  assumes "validateProductConfig p = Some e"
  shows "Collections validateProductConfig (MomoClient g) p = Inl e
       \<and> Disbursements (MomoClient g) p =
           Inr (new_Disbursements (createAuthClient
                  (createTokenRefresher authorizeDisbursements (spread_config g p))
                  (createClient (spread_config g p))))"
  using assms by (simp add: Let_def)

theorem Disbursements_skips_validateProductConfig_witness:
  "Collections requires_userId (MomoClient Map.empty) Map.empty =
     Inl (ConfigurationError ''userId is required'')
   \<and> Disbursements (MomoClient Map.empty) Map.empty = Inr (new_Disbursements client0)"
  using Disbursements_skips_validateProductConfig
    [of requires_userId Map.empty "ConfigurationError ''userId is required''" Map.empty]
  by (simp add: requires_userId_def client0_def)

section \<open>The transport of a Users handle\<close>

text \<open>
  C9. A \<open>Users\<close> handle is built on \<open>createClient\<close> alone: its client holds no token
  refresher, and a request sent through it reaches the wire as it is, with no header
  added, while the state of the token refresher stays untouched.
\<close>

theorem Users_plain_transport:
  assumes "Users validateSubscriptionConfig (MomoClient g) sc = Inr h"
  shows "h = new_Users (createClient (spread_config g sc))
       \<and> refreshers (client_of h) = []
       \<and> run E (client_of h) rq n =
           (server E (spread_config g sc) rq, n\<lparr>wire := wire n @ [rq]\<rparr>)"
proof -
  from assms have h: "h = new_Users (createClient (spread_config g sc))"
    by (auto simp: Let_def split: option.splits)
  show ?thesis
    unfolding h by (simp add: plain_request_def)
qed

theorem Users_plain_transport_witness:
  "Users (\<lambda>c. None) (MomoClient global0) product0 =
      Inr (new_Users (createClient (spread_config global0 product0)))
   \<and> wire (snd (run env0 (createClient (spread_config global0 product0))
        \<lparr>meth = POST, url = ''/v1_0/apiuser'', body = None, headers = []\<rparr> \<lparr>tokens = 0, wire = []\<rparr>))
      = [\<lparr>meth = POST, url = ''/v1_0/apiuser'', body = None, headers = []\<rparr>]
   \<and> tokens (snd (run env0 (createClient (spread_config global0 product0))
        \<lparr>meth = POST, url = ''/v1_0/apiuser'', body = None, headers = []\<rparr> \<lparr>tokens = 0, wire = []\<rparr>)) = 0"
  using Users_plain_transport [of "\<lambda>c. None" global0 product0
     "new_Users (createClient (spread_config global0 product0))" env0
     "\<lparr>meth = POST, url = ''/v1_0/apiuser'', body = None, headers = []\<rparr>" "\<lparr>tokens = 0, wire = []\<rparr>"]
  by (simp add: Let_def)

section \<open>Single flight of the token refresher\<close>

lemma run_events_Cons: "run_events m r (e # es) = run_events m (step m r e) es"
  by (simp add: run_events_def)

lemma attach_while_refreshing:
  assumes "rstate r = Refreshing ws"
  shows "run_events m r (getToken_calls cs) = r\<lparr>rstate := Refreshing (ws @ map fst cs)\<rparr>"
  using assms
proof (induction cs arbitrary: r ws)
  case Nil
  then show ?case by (simp add: run_events_def getToken_calls_def)
next
  case (Cons a cs)
  obtain c now where a: "a = (c, now)" by (cases a)
  have s: "step m r (GetToken c now) = r\<lparr>rstate := Refreshing (ws @ [c])\<rparr>"
    using Cons.prems by simp
  have "run_events m r (getToken_calls (a # cs)) =
          run_events m (r\<lparr>rstate := Refreshing (ws @ [c])\<rparr>) (getToken_calls cs)"
    using s by (simp add: a getToken_calls_def run_events_Cons)
  also have "\<dots> = r\<lparr>rstate := Refreshing ((ws @ [c]) @ map fst cs)\<rparr>"
    using Cons.IH [of "r\<lparr>rstate := Refreshing (ws @ [c])\<rparr>" "ws @ [c]"] by simp
  finally show ?case by (simp add: a)
qed

lemma first_call_starts_refresh:
  assumes "stale m now r"
  shows "step m r (GetToken c now) = start_refresh c r"
  using assms by (simp add: stale_def split: refresher_state.splits)

lemma one_refresh_in_flight:
  assumes "cs \<noteq> []" and "list_all (\<lambda>(c, now). stale m now r) cs"
  shows "run_events m r (getToken_calls cs) =
           r\<lparr>rstate := Refreshing (map fst cs), authorize_calls := Suc (authorize_calls r)\<rparr>"
proof -
  from assms(1) obtain c now cs' where cs: "cs = (c, now) # cs'"
    by (cases cs) auto
  with assms(2) have "stale m now r" by simp
  then have "step m r (GetToken c now) = start_refresh c r"
    by (rule first_call_starts_refresh)
  then have "run_events m r (getToken_calls cs) =
      run_events m (start_refresh c r) (getToken_calls cs')"
    by (simp add: cs getToken_calls_def run_events_Cons)
  also have "\<dots> = (start_refresh c r)\<lparr>rstate := Refreshing ([c] @ map fst cs')\<rparr>"
    by (rule attach_while_refreshing) (simp add: start_refresh_def)
  finally show ?thesis by (simp add: cs start_refresh_def)
qed

text \<open>
  C1. When two or more callers call \<open>getToken\<close> while the cache is empty or expired,
  the Authorizer is called exactly once and nobody is resolved before it completes;
  when it completes, every caller is resolved with its result, the same token or the
  same failure for all of them.
\<close>

theorem single_flight:
  assumes "2 \<le> length cs" and "list_all (\<lambda>(c, now). stale margin now r) cs"
  shows "run_events margin r (getToken_calls cs) =
           r\<lparr>rstate := Refreshing (map fst cs), authorize_calls := Suc (authorize_calls r)\<rparr>
       \<and> run_events margin r (getToken_calls cs @ [Completed res]) =
           r\<lparr>rstate := (case res of Inl e \<Rightarrow> Empty | Inr t \<Rightarrow> Cached t),
             authorize_calls := Suc (authorize_calls r),
             resolved := resolved r @ map (\<lambda>c. (c, res)) (map fst cs)\<rparr>"
proof -
  from assms(1) have "cs \<noteq> []" by auto
  then have f: "run_events margin r (getToken_calls cs) =
      r\<lparr>rstate := Refreshing (map fst cs), authorize_calls := Suc (authorize_calls r)\<rparr>"
    using assms(2) by (rule one_refresh_in_flight)
  have "run_events margin r (getToken_calls cs @ [Completed res]) =
      step margin (run_events margin r (getToken_calls cs)) (Completed res)"
    by (simp add: run_events_def)
  also have "\<dots> = r\<lparr>rstate := (case res of Inl e \<Rightarrow> Empty | Inr t \<Rightarrow> Cached t),
             authorize_calls := Suc (authorize_calls r),
             resolved := resolved r @ map (\<lambda>c. (c, res)) (map fst cs)\<rparr>"
    unfolding f by simp
  finally show ?thesis using f by simp
qed

theorem single_flight_witness:
  "run_events 60 refresher0 [GetToken 1 0, GetToken 2 0, GetToken 3 5, Completed (Inr token0)] =
     \<lparr>rstate = Cached token0, authorize_calls = 1,
      resolved = [(1, Inr token0), (2, Inr token0), (3, Inr token0)]\<rparr>
   \<and> run_events 60 \<lparr>rstate = Cached token0, authorize_calls = 1, resolved = []\<rparr>
       [GetToken 1 3600, GetToken 2 3601, Completed (Inl AuthenticationFailure)] =
     \<lparr>rstate = Empty, authorize_calls = 2,
      resolved = [(1, Inl AuthenticationFailure), (2, Inl AuthenticationFailure)]\<rparr>"
  using single_flight [of "[(1, 0), (2, 0), (3, 5)]" 60 refresher0 "Inr token0"]
    single_flight [of "[(1, 3600), (2, 3601)]" 60
      "\<lparr>rstate = Cached token0, authorize_calls = 1, resolved = []\<rparr>" "Inl AuthenticationFailure"]
  by (simp add: getToken_calls_def refresher0_def stale_def usable_def token0_def)

end
